theory Spec2Isabelle
  imports Main
begin

section \<open>RecruitPro: the request-admission core\<close>

text \<open>
  A shallow embedding of \<^verbatim>\<open>src/lib/rate-limit.ts\<close>, \<^verbatim>\<open>src/lib/errors.ts\<close>,
  \<^verbatim>\<open>src/lib/auth.ts\<close>, \<^verbatim>\<open>src/lib/validation.ts\<close>, \<^verbatim>\<open>src/lib/models/User.ts\<close>
  and the route handlers for registration, login and the profile.

  JavaScript numbers that hold millisecond timestamps, counters and limits are integers
  far below \<open>2^53\<close>, so they are \<^typ>\<open>int\<close> here. Strings are \<^typ>\<open>string\<close>; one
  \<^typ>\<open>char\<close> stands for one UTF-16 code unit below 256.
\<close>

subsection \<open>Rate limiter (\<^verbatim>\<open>src/lib/rate-limit.ts\<close>)\<close>

record RateLimitResult =
  success :: bool
  limit :: int
  remaining :: int
  reset :: int

text \<open>One value of the \<^verbatim>\<open>requests\<close> map: \<^verbatim>\<open>{ count: number; resetTime: number }\<close>.\<close>

record counter =
  count :: int
  resetTime :: int

type_synonym requests = "string \<rightharpoonup> counter"

text \<open>\<^verbatim>\<open>cleanup(windowStart)\<close>: deletes every entry whose \<^verbatim>\<open>resetTime < windowStart\<close>.\<close>

definition cleanup :: "requests \<Rightarrow> int \<Rightarrow> requests" where
  "cleanup rq windowStart =
     (\<lambda>key. case rq key of
              None \<Rightarrow> None
            | Some data \<Rightarrow> if resetTime data < windowStart then None else Some data)"

text \<open>
  \<^verbatim>\<open>check(identifier, limit, windowMs)\<close>. \<^verbatim>\<open>Date.now()\<close> is the argument \<open>now\<close>; the
  mutated map is returned beside the result.
\<close>

definition check :: "requests \<Rightarrow> int \<Rightarrow> string \<Rightarrow> int \<Rightarrow> int \<Rightarrow> RateLimitResult \<times> requests" where
  "check rq now identifier lim windowMs =
     (let windowStart = now - windowMs;
          rq1 = cleanup rq windowStart;
          key = identifier;
          current = (case rq1 key of
                       Some c \<Rightarrow> c
                     | None \<Rightarrow> \<lparr>count = 0, resetTime = now + windowMs\<rparr>);
          current1 = (if now > resetTime current
                      then current\<lparr>count := 0, resetTime := now + windowMs\<rparr>
                      else current);
          current2 = current1\<lparr>count := count current1 + 1\<rparr>
      in (\<lparr>success = count current2 \<le> lim,
           limit = lim,
           remaining = max 0 (lim - count current2),
           reset = resetTime current2\<rparr>,
          rq1(key \<mapsto> current2)))"

text \<open>\<^verbatim>\<open>RATE_LIMITS\<close>: a policy is a pair of \<^verbatim>\<open>limit\<close> and \<^verbatim>\<open>windowMs\<close>.\<close>

record policy =
  p_limit :: int
  p_windowMs :: int

definition RATE_LIMITS_AUTH :: policy where
  "RATE_LIMITS_AUTH = \<lparr>p_limit = 5, p_windowMs = 15 * 60 * 1000\<rparr>"

definition RATE_LIMITS_API :: policy where
  "RATE_LIMITS_API = \<lparr>p_limit = 100, p_windowMs = 15 * 60 * 1000\<rparr>"

definition RATE_LIMITS_STRICT :: policy where
  "RATE_LIMITS_STRICT = \<lparr>p_limit = 3, p_windowMs = 5 * 60 * 1000\<rparr>"

text \<open>
  A run of the limiter: successive calls of \<^verbatim>\<open>check\<close> on one key under one policy, at the
  listed clock readings, each call working on the map the previous one left.
\<close>

fun checks :: "requests \<Rightarrow> string \<Rightarrow> int \<Rightarrow> int \<Rightarrow> int list \<Rightarrow> RateLimitResult list \<times> requests" where
  "checks rq key lim windowMs [] = ([], rq)"
| "checks rq key lim windowMs (t # ts) =
     (let (r, rq1) = check rq t key lim windowMs;
          (rs, rq2) = checks rq1 key lim windowMs ts
      in (r # rs, rq2))"

text \<open>The result the \<open>n\<close>-th attempt of a window ending at \<open>r\<close> is expected to give.\<close>

definition nth_result :: "int \<Rightarrow> int \<Rightarrow> nat \<Rightarrow> RateLimitResult" where
  "nth_result lim r n =
     \<lparr>success = int n \<le> lim, limit = lim, remaining = max 0 (lim - int n), reset = r\<rparr>"

subsection \<open>Error taxonomy and formatter (\<^verbatim>\<open>src/lib/errors.ts\<close>)\<close>

text \<open>
  \<^verbatim>\<open>Record<string, string[]>\<close>: an object keeps its keys in insertion order, and an
  assignment to a key it already has replaces the value in place.
\<close>

type_synonym 'v js_record = "(string \<times> 'v) list"

fun assign :: "string \<Rightarrow> 'v \<Rightarrow> 'v js_record \<Rightarrow> 'v js_record" where
  "assign k v [] = [(k, v)]"
| "assign k v ((k', v') # kvs) = (if k = k' then (k, v) # kvs else (k', v') # assign k v kvs)"

text \<open>
  The value of the property \<^verbatim>\<open>code\<close> on an object that is no \<^verbatim>\<open>ApiError\<close>: absent, a
  string (Node's \<^verbatim>\<open>'ECONNREFUSED'\<close>) or a number (MongoDB's \<^verbatim>\<open>11000\<close>).
\<close>

datatype js_code = CodeUndefined | CodeStr string | CodeNum int

text \<open>
  A thrown object that is not an instance of \<^verbatim>\<open>ApiError\<close>, with the properties that
  \<^verbatim>\<open>formatErrorResponse\<close> reads (\<^verbatim>\<open>name\<close>, \<^verbatim>\<open>code\<close>, \<^verbatim>\<open>errors\<close>, \<^verbatim>\<open>keyPattern\<close>) and the
  detail it must not pass on (\<^verbatim>\<open>message\<close>, \<^verbatim>\<open>stack\<close>). \<^verbatim>\<open>t_errors\<close> lists the keys of
  \<^verbatim>\<open>error.errors\<close> with the \<^verbatim>\<open>message\<close> of each entry, \<^verbatim>\<open>t_keyPattern\<close> the keys of
  \<^verbatim>\<open>error.keyPattern\<close>; \<open>None\<close> is \<^verbatim>\<open>undefined\<close>. Every \<^verbatim>\<open>throw\<close> of the repository and
  of the libraries it calls throws an object; \<^verbatim>\<open>null\<close> and \<^verbatim>\<open>undefined\<close> themselves, on
  which reading \<^verbatim>\<open>name\<close> throws, are not values of this type.
\<close>

record thrown =
  t_name :: "string option"
  t_message :: string
  t_stack :: string
  t_code :: js_code
  t_errors :: "string js_record option"
  t_keyPattern :: "string list option"

text \<open>
  What a \<^verbatim>\<open>catch\<close> receives. \<open>ValidationError errors\<close> is \<^verbatim>\<open>new ValidationError(errors)\<close>;
  \<open>ApiError message statusCode code\<close> is any other instance of \<^verbatim>\<open>ApiError\<close>, as its
  constructor filled it; \<open>Thrown t\<close> is every other object.
\<close>

datatype failure =
    ValidationError "string list js_record"
  | ApiError string int "string option"
  | Thrown thrown

definition AuthenticationError :: "string \<Rightarrow> failure" where
  "AuthenticationError message = ApiError message 401 (Some ''AUTHENTICATION_ERROR'')"

definition AuthorizationError :: "string \<Rightarrow> failure" where
  "AuthorizationError message = ApiError message 403 (Some ''AUTHORIZATION_ERROR'')"

definition NotFoundError :: "string \<Rightarrow> failure" where
  "NotFoundError message = ApiError message 404 (Some ''NOT_FOUND'')"

definition ConflictError :: "string \<Rightarrow> failure" where
  "ConflictError message = ApiError message 409 (Some ''CONFLICT'')"

text \<open>The object \<^verbatim>\<open>formatErrorResponse\<close> returns; an absent key is \<open>None\<close>.\<close>

record envelope =
  error :: string
  code :: "string option"
  details :: "string list js_record option"
  statusCode :: int

text \<open>Reading a property of \<^verbatim>\<open>undefined\<close> throws.\<close>

datatype js_exn = TypeError

text \<open>
  \<^verbatim>\<open>formatErrorResponse(error)\<close>. The four tests run in the source's order. The
  \<^verbatim>\<open>console.error\<close> of the last branch writes to the process log and is no part of the
  returned value.
\<close>

definition formatErrorResponse :: "failure \<Rightarrow> js_exn + envelope" where
  "formatErrorResponse err =
     (case err of
        ValidationError errors \<Rightarrow>
          Inr \<lparr>error = ''Validation failed'', code = Some ''VALIDATION_ERROR'',
               details = Some errors, statusCode = 400\<rparr>
      | ApiError message sc c \<Rightarrow>
          Inr \<lparr>error = message, code = c, details = None, statusCode = sc\<rparr>
      | Thrown t \<Rightarrow>
          if t_name t = Some ''ValidationError'' then
            (case t_errors t of
               None \<Rightarrow> Inl TypeError
             | Some es \<Rightarrow>
                 Inr \<lparr>error = ''Validation failed'', code = Some ''VALIDATION_ERROR'',
                      details = Some (foldl (\<lambda>errors (key, m). assign key [m] errors) [] es),
                      statusCode = 400\<rparr>)
          else if t_code t = CodeNum 11000 then
            (case t_keyPattern t of
               None \<Rightarrow> Inl TypeError
             | Some ks \<Rightarrow>
                 Inr \<lparr>error = (case ks of [] \<Rightarrow> ''undefined'' | field # _ \<Rightarrow> field)
                               @ '' already exists'',
                      code = Some ''DUPLICATE_ERROR'', details = None, statusCode = 409\<rparr>)
          else
            Inr \<lparr>error = ''Internal server error'', code = Some ''INTERNAL_ERROR'',
                 details = None, statusCode = 500\<rparr>)"

subsection \<open>Token service (\<^verbatim>\<open>src/lib/auth.ts\<close>)\<close>

record TokenPayload =
  userId :: string
  email :: string
  role :: string

text \<open>
  What \<^verbatim>\<open>jwt.verify\<close> hands back: the claims that were signed, with the issue and expiry
  times (in seconds) that \<^verbatim>\<open>jwt.sign\<close> added.
\<close>

record JwtPayload = TokenPayload +
  iat :: int
  exp :: int

text \<open>
  \<^verbatim>\<open>JWT_SECRET\<close> and \<^verbatim>\<open>JWT_EXPIRES_IN\<close> are read from the environment once. The time span
  (\<^verbatim>\<open>"7d"\<close> by default) is kept as the number of seconds it denotes.
\<close>

record config =
  JWT_SECRET :: string
  JWT_EXPIRES_IN :: int

text \<open>
  The two functions of the \<^verbatim>\<open>jsonwebtoken\<close> package that the source calls, as
  parameters: \<^verbatim>\<open>jwt.sign(payload, secret, {expiresIn})\<close> and \<^verbatim>\<open>jwt.verify(token, secret)\<close>.
  Either may throw (\<open>Inl\<close>); both read the clock, which is their first argument here
  (milliseconds, as \<^verbatim>\<open>Date.now()\<close>). \<open>'tok\<close> is the type of encoded credentials.
\<close>

record 'tok jsonwebtoken =
  jwt_sign :: "int \<Rightarrow> TokenPayload \<Rightarrow> string \<Rightarrow> int \<Rightarrow> failure + 'tok"
  jwt_verify :: "int \<Rightarrow> 'tok \<Rightarrow> string \<Rightarrow> failure + JwtPayload"

text \<open>\<^verbatim>\<open>generateToken(payload)\<close>: no \<^verbatim>\<open>try\<close>, so what \<^verbatim>\<open>jwt.sign\<close> throws is passed on.\<close>

definition generateToken ::
  "'tok jsonwebtoken \<Rightarrow> config \<Rightarrow> int \<Rightarrow> TokenPayload \<Rightarrow> failure + 'tok" where
  "generateToken jwt cfg now payload =
     jwt_sign jwt now payload (JWT_SECRET cfg) (JWT_EXPIRES_IN cfg)"

text \<open>\<^verbatim>\<open>verifyToken(token)\<close>: \<^verbatim>\<open>try { return jwt.verify(..) } catch { return null }\<close>.\<close>

definition verifyToken ::
  "'tok jsonwebtoken \<Rightarrow> config \<Rightarrow> int \<Rightarrow> 'tok \<Rightarrow> JwtPayload option" where
  "verifyToken jwt cfg now token =
     (case jwt_verify jwt now token (JWT_SECRET cfg) of
        Inr decoded \<Rightarrow> Some decoded
      | Inl _ \<Rightarrow> None)"

text \<open>
  Modelled from the spec: the \<^verbatim>\<open>jsonwebtoken\<close> package itself is not among the sources.
  The specification's token service issues a payload with \<open>issuedAt = now\<close> and
  \<open>expiresAt = now + lifetime\<close>, signed with a symmetric MAC under the secret, and
  verifies by decoding, checking the signature against the secret, and checking
  \<open>expiresAt > now\<close>. The MAC is the parameter \<open>mac\<close>. The compact serialisation is kept
  symbolic: a credential string either decodes to claims and a signature
  (\<open>Compact\<close>) or does not decode (\<open>Undecodable\<close>).
\<close>

datatype jwt_token = Compact JwtPayload string | Undecodable string

definition JsonWebTokenError :: "string \<Rightarrow> failure" where
  "JsonWebTokenError message =
     Thrown \<lparr>t_name = Some ''JsonWebTokenError'', t_message = message, t_stack = [],
             t_code = CodeUndefined, t_errors = None, t_keyPattern = None\<rparr>"

definition TokenExpiredError :: failure where
  "TokenExpiredError =
     Thrown \<lparr>t_name = Some ''TokenExpiredError'', t_message = ''jwt expired'', t_stack = [],
             t_code = CodeUndefined, t_errors = None, t_keyPattern = None\<rparr>"

definition hs_sign ::
  "(string \<Rightarrow> JwtPayload \<Rightarrow> string) \<Rightarrow> int \<Rightarrow> TokenPayload \<Rightarrow> string \<Rightarrow> int \<Rightarrow> failure + jwt_token" where
  "hs_sign mac now payload secret expiresIn =
     (let claims = \<lparr>userId = userId payload, email = email payload, role = role payload,
                     iat = now div 1000, exp = now div 1000 + expiresIn\<rparr>
      in Inr (Compact claims (mac secret claims)))"

definition hs_verify ::
  "(string \<Rightarrow> JwtPayload \<Rightarrow> string) \<Rightarrow> int \<Rightarrow> jwt_token \<Rightarrow> string \<Rightarrow> failure + JwtPayload" where
  "hs_verify mac now token secret =
     (case token of
        Undecodable _ \<Rightarrow> Inl (JsonWebTokenError ''jwt malformed'')
      | Compact claims signature \<Rightarrow>
          if signature \<noteq> mac secret claims then Inl (JsonWebTokenError ''invalid signature'')
          else if now div 1000 \<ge> exp claims then Inl TokenExpiredError
          else Inr claims)"

definition hs_jwt :: "(string \<Rightarrow> JwtPayload \<Rightarrow> string) \<Rightarrow> jwt_token jsonwebtoken" where
  "hs_jwt mac = \<lparr>jwt_sign = hs_sign mac, jwt_verify = hs_verify mac\<rparr>"

subsection \<open>JavaScript values\<close>

text \<open>
  The values that travel through request and response bodies. \<open>JNum\<close> holds the
  integers the routes produce; \<open>JDate\<close> is a \<^verbatim>\<open>Date\<close> (milliseconds), which
  \<^verbatim>\<open>NextResponse.json\<close> renders as an ISO string. An absent property (\<^verbatim>\<open>undefined\<close>) is
  \<open>None\<close> of \<^typ>\<open>'a option\<close>.
\<close>

datatype jsval =
    JNull
  | JBool bool
  | JNum int
  | JStr string
  | JDate int
  | JArr "jsval list"
  | JObj "(string \<times> jsval) list"

text \<open>Property lookup; a key written twice in a JSON text keeps its last value.\<close>

definition jget :: "(string \<times> jsval) list \<Rightarrow> string \<Rightarrow> jsval option" where
  "jget kvs k = map_of (rev kvs) k"

text \<open>\<^verbatim>\<open>Array.prototype.join\<close> on strings.\<close>

fun join :: "string \<Rightarrow> string list \<Rightarrow> string" where
  "join sep [] = []"
| "join sep [x] = x"
| "join sep (x # y # ys) = x @ sep @ join sep (y # ys)"

text \<open>
  \<^verbatim>\<open>String.prototype.trim\<close>: white space and line terminators are removed from both ends
  (among the code units below 256: 9 to 13, 32 and 160).
\<close>

definition is_space :: "char \<Rightarrow> bool" where
  "is_space c = ((of_char c :: nat) \<in> {9, 10, 11, 12, 13, 32, 160})"

definition js_trim :: "string \<Rightarrow> string" where
  "js_trim s = rev (dropWhile is_space (rev (dropWhile is_space s)))"

definition is_lower :: "char \<Rightarrow> bool" where
  "is_lower c = (c \<in> set ''abcdefghijklmnopqrstuvwxyz'')"

definition is_upper :: "char \<Rightarrow> bool" where
  "is_upper c = (c \<in> set ''ABCDEFGHIJKLMNOPQRSTUVWXYZ'')"

definition is_digit :: "char \<Rightarrow> bool" where
  "is_digit c = (c \<in> set ''0123456789'')"

definition is_alnum :: "char \<Rightarrow> bool" where
  "is_alnum c = (is_lower c \<or> is_upper c \<or> is_digit c)"

subsection \<open>Validation schemas (\<^verbatim>\<open>src/lib/validation.ts\<close>)\<close>

text \<open>
  Modelled from the spec: the \<^verbatim>\<open>zod\<close> package, with which the schemas are written
  (version 3: the routes read \<^verbatim>\<open>error.errors\<close>), is not among the sources. The
  specification's validator applies an ordered list of field checks (presence, type,
  length bounds, pattern match, enumerated-value membership), does not stop at the
  first violation, checks every field, and lets a field accumulate several messages.
  The pieces of the package are modelled accordingly, as the package runs them: a
  string schema rejects a non-string with one type issue, and otherwise runs every
  check of its chain in the order written, adding an issue for each check that fails;
  \<^verbatim>\<open>trim\<close> is one step of that chain and replaces the value for the steps after it; an
  object schema parses every key of its shape, in the shape's order, and drops unknown
  keys. Which checks a field has is read from \<^verbatim>\<open>src/lib/validation.ts\<close>.
\<close>

record issue =
  path :: "string list"
  i_message :: string

text \<open>zod's name for the type of a value (\<^verbatim>\<open>getParsedType\<close>).\<close>

fun parsedType :: "jsval option \<Rightarrow> string" where
  "parsedType None = ''undefined''"
| "parsedType (Some JNull) = ''null''"
| "parsedType (Some (JBool _)) = ''boolean''"
| "parsedType (Some (JNum _)) = ''number''"
| "parsedType (Some (JStr _)) = ''string''"
| "parsedType (Some (JDate _)) = ''date''"
| "parsedType (Some (JArr _)) = ''array''"
| "parsedType (Some (JObj _)) = ''object''"

text \<open>The message of zod's default error map for a value of the wrong type.\<close>

definition invalid_type :: "string \<Rightarrow> jsval option \<Rightarrow> string" where
  "invalid_type expected input =
     (if input = None then ''Required''
      else ''Expected '' @ expected @ '', received '' @ parsedType input)"

text \<open>
  zod 3's pattern for \<^verbatim>\<open>.email()\<close>, case-insensitive:
  \<^verbatim>\<open>/^(?!\.)(?!.*\.\.)([A-Z0-9_'+\-\.]*)[A-Z0-9_+-]@([A-Z0-9][A-Z0-9\-]*\.)+[A-Z]{2,}$/i\<close>.
  Neither \<^verbatim>\<open>@\<close> nor \<^verbatim>\<open>.\<close> is in a label's character class, so the string splits at its
  first \<^verbatim>\<open>@\<close> and the domain at its dots.
\<close>

fun split_on :: "char \<Rightarrow> string \<Rightarrow> string list" where
  "split_on d [] = [[]]"
| "split_on d (c # cs) =
     (if c = d then [] # split_on d cs
      else (case split_on d cs of [] \<Rightarrow> [[c]] | l # ls \<Rightarrow> (c # l) # ls))"

fun has_dotdot :: "string \<Rightarrow> bool" where
  "has_dotdot (a # b # cs) = ((a = CHR ''.'' \<and> b = CHR ''.'') \<or> has_dotdot (b # cs))"
| "has_dotdot _ = False"

definition local_char :: "char \<Rightarrow> bool" where
  "local_char c = (is_alnum c \<or> c \<in> set ''_+-.'' \<or> of_char c = (39::nat))"

definition local_last_char :: "char \<Rightarrow> bool" where
  "local_last_char c = (is_alnum c \<or> c \<in> set ''_+-'')"

definition domain_label :: "string \<Rightarrow> bool" where
  "domain_label l =
     (case l of
        [] \<Rightarrow> False
      | c # cs \<Rightarrow> is_alnum c \<and> (\<forall>x \<in> set cs. is_alnum x \<or> x = CHR ''-''))"

definition top_label :: "string \<Rightarrow> bool" where
  "top_label l = (2 \<le> length l \<and> (\<forall>x \<in> set l. is_lower x \<or> is_upper x))"

definition zod_email :: "string \<Rightarrow> bool" where
  "zod_email s =
     (let localpart = takeWhile (\<lambda>c. c \<noteq> CHR ''@'') s;
          rest = dropWhile (\<lambda>c. c \<noteq> CHR ''@'') s
      in case rest of
           [] \<Rightarrow> False
         | _ # domain \<Rightarrow>
             (case rev localpart of
                [] \<Rightarrow> False
              | z # front \<Rightarrow>
                  (case localpart of [] \<Rightarrow> False | a # _ \<Rightarrow> a \<noteq> CHR ''.'') \<and>
                  \<not> has_dotdot s \<and>
                  (\<forall>c \<in> set front. local_char c) \<and> local_last_char z \<and>
                  (case rev (split_on (CHR ''.'') domain) of
                     tld # l # ls \<Rightarrow> top_label tld \<and> (\<forall>x \<in> set (l # ls). domain_label x)
                   | _ \<Rightarrow> False)))"

text \<open>
  The password pattern \<^verbatim>\<open>/^(?=.*[a-z])(?=.*[A-Z])(?=.*\d)/\<close>: three look-aheads at the
  start of the string. \<^verbatim>\<open>.\<close> does not match a line terminator, so each look-ahead
  searches the first line only.
\<close>

definition first_line :: "string \<Rightarrow> string" where
  "first_line s = takeWhile (\<lambda>c. (of_char c :: nat) \<noteq> 10 \<and> (of_char c :: nat) \<noteq> 13) s"

definition password_pattern :: "string \<Rightarrow> bool" where
  "password_pattern s =
     ((\<exists>c \<in> set (first_line s). is_lower c) \<and>
      (\<exists>c \<in> set (first_line s). is_upper c) \<and>
      (\<exists>c \<in> set (first_line s). is_digit c))"

text \<open>The checks of a string schema, each with the message the schema gives it.\<close>

datatype str_check =
    Email string
  | Min nat string
  | Max nat string
  | Regex "string \<Rightarrow> bool" string
  | Trim

text \<open>Runs a chain of checks: the messages of the failing checks, and the final value.\<close>

fun run_checks :: "str_check list \<Rightarrow> string \<Rightarrow> string list \<times> string" where
  "run_checks [] d = ([], d)"
| "run_checks (Email m # cs) d =
     (let (ms, d') = run_checks cs d in ((if zod_email d then [] else [m]) @ ms, d'))"
| "run_checks (Min n m # cs) d =
     (let (ms, d') = run_checks cs d in ((if length d < n then [m] else []) @ ms, d'))"
| "run_checks (Max n m # cs) d =
     (let (ms, d') = run_checks cs d in ((if length d > n then [m] else []) @ ms, d'))"
| "run_checks (Regex p m # cs) d =
     (let (ms, d') = run_checks cs d in ((if p d then [] else [m]) @ ms, d'))"
| "run_checks (Trim # cs) d = run_checks cs (js_trim d)"

text \<open>
  \<^verbatim>\<open>z.string()\<close> with a chain of checks, applied to a property: the messages of its
  issues, and the parsed value when there is none.
\<close>

definition z_string :: "str_check list \<Rightarrow> jsval option \<Rightarrow> string list \<times> string option" where
  "z_string cs input =
     (case input of
        Some (JStr s) \<Rightarrow>
          (let (ms, d) = run_checks cs s in (ms, if ms = [] then Some d else None))
      | _ \<Rightarrow> ([invalid_type ''string'' input], None))"

text \<open>\<^verbatim>\<open>z.enum(values).default(d)\<close>: an absent property is replaced by the default first.\<close>

definition join_values :: "string list \<Rightarrow> string" where
  "join_values vs = join '' | '' (map (\<lambda>v. [char_of (39::nat)] @ v @ [char_of (39::nat)]) vs)"

definition z_enum_default :: "string list \<Rightarrow> string \<Rightarrow> jsval option \<Rightarrow> string list \<times> string option" where
  "z_enum_default vs d input =
     (let data = (case input of None \<Rightarrow> Some (JStr d) | Some v \<Rightarrow> Some v)
      in case data of
           Some (JStr s) \<Rightarrow>
             if s \<in> set vs then ([], Some s)
             else ([''Invalid enum value. Expected '' @ join_values vs @ '', received ''
                    @ [char_of (39::nat)] @ s @ [char_of (39::nat)]], None)
         | _ \<Rightarrow> ([invalid_type (join_values vs) data], None))"

text \<open>The issues of one key of an object schema.\<close>

definition at_key :: "string \<Rightarrow> string list \<Rightarrow> issue list" where
  "at_key k ms = map (\<lambda>m. \<lparr>path = [k], i_message = m\<rparr>) ms"

text \<open>\<^verbatim>\<open>RegisterInput\<close>, the output type of \<^verbatim>\<open>registerSchema\<close>.\<close>

record RegisterInput =
  r_email :: string
  r_password :: string
  r_firstName :: string
  r_lastName :: string
  r_role :: string

definition register_email :: "str_check list" where
  "register_email = [Email ''Invalid email format'', Min 1 ''Email is required'']"

definition register_password :: "str_check list" where
  "register_password =
     [Min 8 ''Password must be at least 8 characters long'',
      Regex password_pattern
        ''Password must contain at least one uppercase letter, one lowercase letter, and one number'']"

definition register_firstName :: "str_check list" where
  "register_firstName =
     [Min 1 ''First name is required'', Max 50 ''First name cannot exceed 50 characters'', Trim]"

definition register_lastName :: "str_check list" where
  "register_lastName =
     [Min 1 ''Last name is required'', Max 50 ''Last name cannot exceed 50 characters'', Trim]"

text \<open>\<^verbatim>\<open>registerSchema.safeParse(body)\<close>: the issues, or the parsed value when there is none.\<close>

definition registerSchema_safeParse :: "jsval \<Rightarrow> issue list + RegisterInput" where
  "registerSchema_safeParse body =
     (case body of
        JObj kvs \<Rightarrow>
          (let (m1, v1) = z_string register_email (jget kvs ''email'');
               (m2, v2) = z_string register_password (jget kvs ''password'');
               (m3, v3) = z_string register_firstName (jget kvs ''firstName'');
               (m4, v4) = z_string register_lastName (jget kvs ''lastName'');
               (m5, v5) = z_enum_default [''candidate'', ''recruiter''] ''candidate''
                            (jget kvs ''role'')
           in case (v1, v2, v3, v4, v5) of
                (Some e, Some p, Some f, Some l, Some r) \<Rightarrow>
                  Inr \<lparr>r_email = e, r_password = p, r_firstName = f, r_lastName = l, r_role = r\<rparr>
              | _ \<Rightarrow>
                  Inl (at_key ''email'' m1 @ at_key ''password'' m2 @ at_key ''firstName'' m3
                       @ at_key ''lastName'' m4 @ at_key ''role'' m5))
      | _ \<Rightarrow> Inl [\<lparr>path = [], i_message = invalid_type ''object'' (Some body)\<rparr>])"

text \<open>\<^verbatim>\<open>LoginInput\<close> and \<^verbatim>\<open>loginSchema.safeParse(body)\<close>.\<close>

record LoginInput =
  l_email :: string
  l_password :: string

definition loginSchema_safeParse :: "jsval \<Rightarrow> issue list + LoginInput" where
  "loginSchema_safeParse body =
     (case body of
        JObj kvs \<Rightarrow>
          (let (m1, v1) = z_string [Email ''Invalid email format'', Min 1 ''Email is required'']
                            (jget kvs ''email'');
               (m2, v2) = z_string [Min 1 ''Password is required''] (jget kvs ''password'')
           in case (v1, v2) of
                (Some e, Some p) \<Rightarrow> Inr \<lparr>l_email = e, l_password = p\<rparr>
              | _ \<Rightarrow> Inl (at_key ''email'' m1 @ at_key ''password'' m2))
      | _ \<Rightarrow> Inl [\<lparr>path = [], i_message = invalid_type ''object'' (Some body)\<rparr>])"

text \<open>
  The loop of the routes over \<^verbatim>\<open>validationResult.error.errors\<close>:
  \<^verbatim>\<open>const path = error.path.join('.'); if (!errors[path]) errors[path] = [];
  errors[path].push(error.message)\<close>.
\<close>

fun push_message :: "string \<Rightarrow> string \<Rightarrow> string list js_record \<Rightarrow> string list js_record" where
  "push_message p m [] = [(p, [m])]"
| "push_message p m ((k, ms) # kvs) =
     (if p = k then (k, ms @ [m]) # kvs else (k, ms) # push_message p m kvs)"

definition fieldErrors :: "issue list \<Rightarrow> string list js_record" where
  "fieldErrors issues =
     foldl (\<lambda>errors e. push_message (join ''.'' (path e)) (i_message e) errors) [] issues"

subsection \<open>User model (\<^verbatim>\<open>src/lib/models/User.ts\<close>)\<close>

text \<open>A stored user document (\<^verbatim>\<open>IUser\<close>); \<open>u_password\<close> holds the bcrypt hash.\<close>

record IUser =
  u_id :: string
  u_email :: string
  u_password :: string
  u_firstName :: string
  u_lastName :: string
  u_role :: string
  u_profilePicture :: string
  u_phone :: "string option"
  u_bio :: "string option"
  u_skills :: "string list"
  u_experience :: "string option"
  u_createdAt :: int
  u_updatedAt :: int
  u_version :: int

text \<open>
  Mongoose's \<^verbatim>\<open>toJSON\<close> first builds the plain object \<^verbatim>\<open>ret\<close> of the document's paths
  (\<open>toObject\<close>, the library's part; the routes load the document with its password)
  and then calls the schema's \<^verbatim>\<open>transform(doc, ret)\<close>, which is
  \<^verbatim>\<open>delete ret.password; return ret\<close>.
\<close>

definition opt_key :: "string \<Rightarrow> string option \<Rightarrow> (string \<times> jsval) list" where
  "opt_key k v = (case v of None \<Rightarrow> [] | Some s \<Rightarrow> [(k, JStr s)])"

definition toObject :: "IUser \<Rightarrow> (string \<times> jsval) list" where
  "toObject u =
     [(''_id'', JStr (u_id u)), (''email'', JStr (u_email u)),
      (''password'', JStr (u_password u)), (''firstName'', JStr (u_firstName u)),
      (''lastName'', JStr (u_lastName u)), (''role'', JStr (u_role u)),
      (''profilePicture'', JStr (u_profilePicture u))]
     @ opt_key ''phone'' (u_phone u) @ opt_key ''bio'' (u_bio u)
     @ [(''skills'', JArr (map JStr (u_skills u)))]
     @ opt_key ''experience'' (u_experience u)
     @ [(''createdAt'', JDate (u_createdAt u)), (''updatedAt'', JDate (u_updatedAt u)),
        (''__v'', JNum (u_version u))]"

definition transform :: "(string \<times> jsval) list \<Rightarrow> (string \<times> jsval) list" where
  "transform ret = filter (\<lambda>(k, v). k \<noteq> ''password'') ret"

definition toJSON :: "IUser \<Rightarrow> jsval" where
  "toJSON u = JObj (transform (toObject u))"

subsection \<open>Route handlers\<close>

text \<open>
  What a handler reads of a \<^verbatim>\<open>NextRequest\<close>: \<^verbatim>\<open>request.ip\<close>, the \<^verbatim>\<open>Authorization\<close> header,
  the value of the cookie \<^verbatim>\<open>token\<close>, and the outcome of \<^verbatim>\<open>request.json()\<close> (\<open>Inl\<close> when it
  rejects, as for a body that is no JSON).
\<close>

record request =
  req_ip :: "string option"
  req_authorization :: "string option"
  req_cookie_token :: "string option"
  req_json :: "failure + jsval"

text \<open>
  What \<^verbatim>\<open>NextResponse.json(body, {status, headers})\<close> and \<^verbatim>\<open>cookies.set\<close> build. A header
  is kept as the value whose \<^verbatim>\<open>toString()\<close> or \<^verbatim>\<open>toISOString()\<close> the source sends, a cookie
  as its name and value.
\<close>

record response =
  status :: int
  json :: jsval
  headers :: "(string \<times> jsval) list"
  cookies :: "(string \<times> string) list"

text \<open>
  The storage collaborator (\<^verbatim>\<open>connectToDatabase\<close> and the Mongoose model), as the answers
  it gives during one request; \<open>Inl\<close> and \<open>Some\<close> of \<open>connectToDatabase\<close> are what it
  throws. \<open>save\<close> is \<^verbatim>\<open>new User({..}).save()\<close> and yields the document as saved;
  \<open>findOne\<close> is \<^verbatim>\<open>User.findOne({ email })\<close>, also with the login route's
  \<^verbatim>\<open>.select('+password')\<close> (the schema hides no path, so both load the password).
  \<open>'upd\<close> is the output type of \<^verbatim>\<open>updateProfileSchema\<close>.
\<close>

record 'upd storage =
  connectToDatabase :: "failure option"
  findOne :: "string \<Rightarrow> failure + IUser option"
  save :: "RegisterInput \<Rightarrow> failure + IUser"
  comparePassword :: "IUser \<Rightarrow> string \<Rightarrow> failure + bool"
  findById :: "string \<Rightarrow> failure + IUser option"
  findByIdAndUpdate :: "string \<Rightarrow> 'upd \<Rightarrow> int \<Rightarrow> failure + IUser option"

text \<open>\<^verbatim>\<open>extractTokenFromRequest\<close> and \<^verbatim>\<open>authenticateRequest\<close> of \<^verbatim>\<open>src/lib/auth.ts\<close>.\<close>

definition extractTokenFromRequest :: "request \<Rightarrow> string option" where
  "extractTokenFromRequest request =
     (let fallback = (case req_cookie_token request of
                        None \<Rightarrow> None
                      | Some v \<Rightarrow> if v = [] then None else Some v)
      in case req_authorization request of
           None \<Rightarrow> fallback
         | Some authHeader \<Rightarrow>
             if take 7 authHeader = ''Bearer '' then Some (drop 7 authHeader) else fallback)"

definition authenticateRequest ::
  "string jsonwebtoken \<Rightarrow> config \<Rightarrow> int \<Rightarrow> request \<Rightarrow> JwtPayload option" where
  "authenticateRequest jwt cfg now request =
     (case extractTokenFromRequest request of
        None \<Rightarrow> None
      | Some token \<Rightarrow> if token = [] then None else verifyToken jwt cfg now token)"

text \<open>
  The stages of the pipeline. A handler's trace lists the stages it enters, in order:
  \<open>RATE_CHECK\<close> at \<^verbatim>\<open>rateLimiter.check\<close>, \<open>PARSE_VALIDATE\<close> at \<^verbatim>\<open>request.json()\<close> and
  \<^verbatim>\<open>safeParse\<close>, \<open>AUTHENTICATE\<close> at \<^verbatim>\<open>authenticateRequest\<close>, \<open>EXECUTE\<close> at
  \<^verbatim>\<open>connectToDatabase\<close> and what follows it, \<open>FORMAT\<close> where the response is built.
\<close>

datatype stage = RATE_CHECK | PARSE_VALIDATE | AUTHENTICATE | EXECUTE | FORMAT

text \<open>The JSON body of an error envelope; absent keys are left out.\<close>

definition envelope_json :: "envelope \<Rightarrow> jsval" where
  "envelope_json e =
     JObj ([(''error'', JStr (error e))]
           @ (case code e of None \<Rightarrow> [] | Some c \<Rightarrow> [(''code'', JStr c)])
           @ (case details e of
                None \<Rightarrow> []
              | Some d \<Rightarrow> [(''details'', JObj (map (\<lambda>(k, ms). (k, JArr (map JStr ms))) d))])
           @ [(''statusCode'', JNum (statusCode e))])"

text \<open>
  The \<^verbatim>\<open>catch\<close> block shared by the handlers:
  \<^verbatim>\<open>const errorResponse = formatErrorResponse(error);
  return NextResponse.json(errorResponse, { status: errorResponse.statusCode })\<close>.
  The body of the \<^verbatim>\<open>try\<close> either returns a response or throws.
\<close>

definition catch_block :: "stage list \<times> (failure + response) \<Rightarrow> stage list \<times> (js_exn + response)" where
  "catch_block r =
     (case r of
        (tr, Inr resp) \<Rightarrow> (tr @ [FORMAT], Inr resp)
      | (tr, Inl err) \<Rightarrow>
          (tr @ [FORMAT],
           case formatErrorResponse err of
             Inl x \<Rightarrow> Inl x
           | Inr errorResponse \<Rightarrow>
               Inr \<lparr>status = statusCode errorResponse, json = envelope_json errorResponse,
                    headers = [], cookies = []\<rparr>))"

definition client_ip :: "request \<Rightarrow> string" where
  "client_ip request =
     (case req_ip request of None \<Rightarrow> ''anonymous'' | Some a \<Rightarrow> if a = [] then ''anonymous'' else a)"

definition rate_limited :: "string \<Rightarrow> RateLimitResult \<Rightarrow> response" where
  "rate_limited msg rateLimitResult =
     \<lparr>status = 429,
      json = JObj [(''error'', JStr msg), (''code'', JStr ''RATE_LIMIT_EXCEEDED''),
                   (''retryAfter'', JDate (reset rateLimitResult))],
      headers = [(''X-RateLimit-Limit'', JNum (limit rateLimitResult)),
                 (''X-RateLimit-Remaining'', JNum (remaining rateLimitResult)),
                 (''X-RateLimit-Reset'', JDate (reset rateLimitResult))],
      cookies = []\<rparr>"

text \<open>
  \<^verbatim>\<open>POST\<close> of \<^verbatim>\<open>src/app/api/auth/register/route.ts\<close>, from \<^verbatim>\<open>connectToDatabase()\<close> to the
  success response, on the validated \<^verbatim>\<open>validationResult.data\<close>.
\<close>

definition register_execute ::
  "string jsonwebtoken \<Rightarrow> config \<Rightarrow> 'upd storage \<Rightarrow> int \<Rightarrow> RegisterInput \<Rightarrow> failure + response" where
  "register_execute jwt cfg db now d =
     (case connectToDatabase db of
        Some err \<Rightarrow> Inl err
      | None \<Rightarrow>
          (case findOne db (r_email d) of
             Inl err \<Rightarrow> Inl err
           | Inr (Some existingUser) \<Rightarrow> Inl (ConflictError ''User with this email already exists'')
           | Inr None \<Rightarrow>
               (case save db d of
                  Inl err \<Rightarrow> Inl err
                | Inr user \<Rightarrow>
                    (case generateToken jwt cfg now
                            \<lparr>userId = u_id user, email = u_email user, role = u_role user\<rparr> of
                       Inl err \<Rightarrow> Inl err
                     | Inr token \<Rightarrow>
                         Inr \<lparr>status = 201,
                              json = JObj [(''message'', JStr ''Registration successful''),
                                           (''user'', toJSON user), (''token'', JStr token)],
                              headers = [], cookies = [(''token'', token)]\<rparr>))))"

definition POST_register ::
  "string jsonwebtoken \<Rightarrow> config \<Rightarrow> 'upd storage \<Rightarrow> int \<Rightarrow> requests \<Rightarrow> request
     \<Rightarrow> (stage list \<times> (js_exn + response)) \<times> requests" where
  "POST_register jwt cfg db now rq request =
     (let clientIP = client_ip request;
          (rateLimitResult, rq') = check rq now (''register:'' @ clientIP)
                                     (p_limit RATE_LIMITS_AUTH) (p_windowMs RATE_LIMITS_AUTH)
      in (catch_block
            (if \<not> success rateLimitResult then
               ([RATE_CHECK], Inr (rate_limited ''Too many registration attempts'' rateLimitResult))
             else
               (case req_json request of
                  Inl err \<Rightarrow> ([RATE_CHECK, PARSE_VALIDATE], Inl err)
                | Inr body \<Rightarrow>
                    (case registerSchema_safeParse body of
                       Inl issues \<Rightarrow>
                         ([RATE_CHECK, PARSE_VALIDATE], Inl (ValidationError (fieldErrors issues)))
                     | Inr d \<Rightarrow>
                         ([RATE_CHECK, PARSE_VALIDATE, EXECUTE],
                          register_execute jwt cfg db now d)))),
          rq'))"

text \<open>\<^verbatim>\<open>POST\<close> of the login route (\<^verbatim>\<open>src/unnamed/part_002\<close>, first file).\<close>

definition login_execute ::
  "string jsonwebtoken \<Rightarrow> config \<Rightarrow> 'upd storage \<Rightarrow> int \<Rightarrow> LoginInput \<Rightarrow> failure + response" where
  "login_execute jwt cfg db now d =
     (case connectToDatabase db of
        Some err \<Rightarrow> Inl err
      | None \<Rightarrow>
          (case findOne db (l_email d) of
             Inl err \<Rightarrow> Inl err
           | Inr None \<Rightarrow> Inl (AuthenticationError ''Invalid email or password'')
           | Inr (Some user) \<Rightarrow>
               (case comparePassword db user (l_password d) of
                  Inl err \<Rightarrow> Inl err
                | Inr isPasswordValid \<Rightarrow>
                    if \<not> isPasswordValid then Inl (AuthenticationError ''Invalid email or password'')
                    else
                      (case generateToken jwt cfg now
                              \<lparr>userId = u_id user, email = u_email user, role = u_role user\<rparr> of
                         Inl err \<Rightarrow> Inl err
                       | Inr token \<Rightarrow>
                           Inr \<lparr>status = 200,
                                json = JObj [(''message'', JStr ''Login successful''),
                                             (''user'', toJSON user), (''token'', JStr token)],
                                headers = [], cookies = [(''token'', token)]\<rparr>))))"

definition POST_login ::
  "string jsonwebtoken \<Rightarrow> config \<Rightarrow> 'upd storage \<Rightarrow> int \<Rightarrow> requests \<Rightarrow> request
     \<Rightarrow> (stage list \<times> (js_exn + response)) \<times> requests" where
  "POST_login jwt cfg db now rq request =
     (let clientIP = client_ip request;
          (rateLimitResult, rq') = check rq now (''login:'' @ clientIP)
                                     (p_limit RATE_LIMITS_AUTH) (p_windowMs RATE_LIMITS_AUTH)
      in (catch_block
            (if \<not> success rateLimitResult then
               ([RATE_CHECK], Inr (rate_limited ''Too many login attempts'' rateLimitResult))
             else
               (case req_json request of
                  Inl err \<Rightarrow> ([RATE_CHECK, PARSE_VALIDATE], Inl err)
                | Inr body \<Rightarrow>
                    (case loginSchema_safeParse body of
                       Inl issues \<Rightarrow>
                         ([RATE_CHECK, PARSE_VALIDATE], Inl (ValidationError (fieldErrors issues)))
                     | Inr d \<Rightarrow>
                         ([RATE_CHECK, PARSE_VALIDATE, EXECUTE],
                          login_execute jwt cfg db now d)))),
          rq'))"





text \<open>
  The entry a key has in the error mapping when its checks gave the messages \<open>ms\<close>:
  none when there is no message.
\<close>

definition field_entry :: "string \<Rightarrow> string list \<Rightarrow> string list js_record" where
  "field_entry k ms = (if ms = [] then [] else [(k, ms)])"

subsection \<open>Example collaborators\<close>

text \<open>
  Concrete collaborators on which the handlers can be run: a token library that
  accepts one credential, a store holding one user, and an update schema that accepts
  any object.
\<close>

definition example_cfg :: config where
  "example_cfg = \<lparr>JWT_SECRET = ''insecure_default_secret'', JWT_EXPIRES_IN = 604800\<rparr>"

definition example_jwt :: "string jsonwebtoken" where
  "example_jwt =
     \<lparr>jwt_sign = (\<lambda>now p secret expiresIn. Inr (''tok.'' @ userId p)),
      jwt_verify = (\<lambda>now token secret.
         if token = ''tok.u1''
         then Inr \<lparr>userId = ''u1'', email = ''ann@example.com'', role = ''candidate'',
                   iat = 0, exp = 604800\<rparr>
         else Inl (JsonWebTokenError ''invalid token''))\<rparr>"

definition example_user :: IUser where
  "example_user =
     \<lparr>u_id = ''u1'', u_email = ''ann@example.com'', u_password = ''$2a$12$hashhashhash'',
      u_firstName = ''Ann'', u_lastName = ''Lee'', u_role = ''candidate'',
      u_profilePicture = [], u_phone = None, u_bio = None, u_skills = [],
      u_experience = None, u_createdAt = 0, u_updatedAt = 0, u_version = 0\<rparr>"

definition example_db :: "(string \<times> jsval) list storage" where
  "example_db =
     \<lparr>connectToDatabase = None,
      findOne = (\<lambda>e. Inr (if e = ''ann@example.com'' then Some example_user else None)),
      save = (\<lambda>d. Inr (example_user\<lparr>u_id := ''u2'', u_email := r_email d,
                                     u_firstName := r_firstName d, u_lastName := r_lastName d,
                                     u_role := r_role d\<rparr>)),
      comparePassword = (\<lambda>u p. Inr (p = ''Passw0rd1'')),
      findById = (\<lambda>i. Inr (if i = ''u1'' then Some example_user else None)),
      findByIdAndUpdate = (\<lambda>i d t. Inr (if i = ''u1'' then Some example_user else None))\<rparr>"

definition example_update_safeParse :: "jsval \<Rightarrow> issue list + (string \<times> jsval) list" where
  "example_update_safeParse body =
     (case body of
        JObj kvs \<Rightarrow> Inr kvs
      | _ \<Rightarrow> Inl [\<lparr>path = [], i_message = invalid_type ''object'' (Some body)\<rparr>])"

text \<open>
  The rules of \<^verbatim>\<open>registerSchema\<close> read as conditions on a body: \<open>email\<close> is a string that
  matches the email pattern (so it is not empty); \<open>password\<close> is a string of at least 8
  code units that matches the password pattern; \<open>firstName\<close> and \<open>lastName\<close> are strings
  of 1 to 50 code units; \<open>role\<close> is absent, \<^verbatim>\<open>'candidate'\<close> or \<^verbatim>\<open>'recruiter'\<close>.
\<close>

definition conformant ::
  "(string \<times> jsval) list \<Rightarrow> string \<Rightarrow> string \<Rightarrow> string \<Rightarrow> string \<Rightarrow> bool" where
  "conformant kvs e p f l =
     (jget kvs ''email'' = Some (JStr e) \<and> zod_email e \<and>
      jget kvs ''password'' = Some (JStr p) \<and> 8 \<le> length p \<and> password_pattern p \<and>
      jget kvs ''firstName'' = Some (JStr f) \<and> 1 \<le> length f \<and> length f \<le> 50 \<and>
      jget kvs ''lastName'' = Some (JStr l) \<and> 1 \<le> length l \<and> length l \<le> 50 \<and>
      (jget kvs ''role'' = None \<or> jget kvs ''role'' = Some (JStr ''candidate'')
       \<or> jget kvs ''role'' = Some (JStr ''recruiter'')))"


abbreviation register_verdict :: "requests \<Rightarrow> int \<Rightarrow> request \<Rightarrow> RateLimitResult" where
  "register_verdict rq now request \<equiv>
     fst (check rq now (''register:'' @ client_ip request)
            (p_limit RATE_LIMITS_AUTH) (p_windowMs RATE_LIMITS_AUTH))"


section \<open>Properties of the rate limiter\<close>

lemma check_fresh:
  assumes "rq key = None"
  shows "check rq now key lim w =
           (nth_result lim (now + w) 1,
            (cleanup rq (now - w))(key \<mapsto> \<lparr>count = 1, resetTime = now + w\<rparr>))"
proof -
  have "cleanup rq (now - w) key = None"
    using assms by (simp add: cleanup_def)
  then show ?thesis
    unfolding check_def Let_def nth_result_def by auto
qed

lemma check_running:
  assumes "rq key = Some \<lparr>count = int c, resetTime = r\<rparr>" and "now \<le> r" and "0 \<le> w"
  shows "check rq now key lim w =
           (nth_result lim r (Suc c),
            (cleanup rq (now - w))(key \<mapsto> \<lparr>count = int (Suc c), resetTime = r\<rparr>))"
proof -
  have "cleanup rq (now - w) key = Some \<lparr>count = int c, resetTime = r\<rparr>"
    using assms by (simp add: cleanup_def)
  then show ?thesis
    using assms by (simp add: check_def nth_result_def Let_def add.commute)
qed

lemma checks_running:
  assumes "rq key = Some \<lparr>count = int c, resetTime = r\<rparr>"
    and "\<forall>t \<in> set ts. t \<le> r" and "0 \<le> w"
  shows "fst (checks rq key lim w ts) = map (nth_result lim r) [Suc c ..< Suc c + length ts]"
  using assms
proof (induction ts arbitrary: rq c)
  case Nil
  then show ?case by simp
next
  case (Cons t ts)
  let ?rq1 = "(cleanup rq (t - w))(key \<mapsto> \<lparr>count = int (Suc c), resetTime = r\<rparr>)"
  have step: "check rq t key lim w = (nth_result lim r (Suc c), ?rq1)"
    using Cons.prems by (intro check_running) auto
  have "?rq1 key = Some \<lparr>count = int (Suc c), resetTime = r\<rparr>"
    by simp
  then have rest: "fst (checks ?rq1 key lim w ts)
                   = map (nth_result lim r) [Suc (Suc c) ..< Suc (Suc c) + length ts]"
    using Cons.prems by (intro Cons.IH) auto
  have "[Suc c ..< Suc c + length (t # ts)] = Suc c # [Suc (Suc c) ..< Suc (Suc c) + length ts]"
    by (simp add: upt_rec)
  then show ?case
    using step rest by (simp add: split_beta)
qed

text \<open>
  C2. For every limit (in particular every \<open>limit \<ge> 1\<close>) and every key without a
  counter, the attempts made on that key inside one window (the first at \<open>t0\<close>, the
  others no later than \<open>t0 + windowMs\<close>) give, in order, the results of attempts
  \<open>1, 2, \<dots>\<close>: attempt \<open>n\<close> is admitted exactly when \<open>n \<le> limit\<close>, so the first
  \<open>limit\<close> attempts are admitted and every later one is denied; it reports
  \<open>remaining = max 0 (limit - n)\<close> and the reset time \<open>t0 + windowMs\<close>.
\<close>

theorem rate_limit_window:
  assumes "0 \<le> w" and "rq key = None" and "\<forall>t \<in> set ts. t \<le> t0 + w"
  shows "fst (checks rq key lim w (t0 # ts)) =
           map (\<lambda>n. \<lparr>success = int n \<le> lim, limit = lim,
                       remaining = max 0 (lim - int n), reset = t0 + w\<rparr>)
               [1 ..< length ts + 2]"
proof -
  let ?rq1 = "(cleanup rq (t0 - w))(key \<mapsto> \<lparr>count = int 1, resetTime = t0 + w\<rparr>)"
  have first: "check rq t0 key lim w = (nth_result lim (t0 + w) 1, ?rq1)"
    using assms(2) by (simp add: check_fresh)
  have "?rq1 key = Some \<lparr>count = int 1, resetTime = t0 + w\<rparr>"
    by simp
  then have rest: "fst (checks ?rq1 key lim w ts)
                   = map (nth_result lim (t0 + w)) [Suc 1 ..< Suc 1 + length ts]"
    using assms(1,3) by (intro checks_running) auto
  have "[1 ..< length ts + 2] = 1 # [Suc 1 ..< Suc 1 + length ts]"
    by (simp add: upt_rec)
  moreover have "nth_result lim (t0 + w) = (\<lambda>n. \<lparr>success = int n \<le> lim, limit = lim,
                       remaining = max 0 (lim - int n), reset = t0 + w\<rparr>)"
    by (simp add: nth_result_def fun_eq_iff)
  ultimately show ?thesis
    using first rest by (simp add: split_beta)
qed

text \<open>
  The scenario of the specification: policy \<open>{limit: 5, windowMs: 900000}\<close>, six attempts
  at one instant on a fresh key.
\<close>

theorem rate_limit_window_witness:
  "fst (checks Map.empty ''login:203.0.113.7'' (p_limit RATE_LIMITS_AUTH)
          (p_windowMs RATE_LIMITS_AUTH) [1000, 1000, 1000, 1000, 1000, 1000]) =
     [\<lparr>success = True, limit = 5, remaining = 4, reset = 901000\<rparr>,
      \<lparr>success = True, limit = 5, remaining = 3, reset = 901000\<rparr>,
      \<lparr>success = True, limit = 5, remaining = 2, reset = 901000\<rparr>,
      \<lparr>success = True, limit = 5, remaining = 1, reset = 901000\<rparr>,
      \<lparr>success = True, limit = 5, remaining = 0, reset = 901000\<rparr>,
      \<lparr>success = False, limit = 5, remaining = 0, reset = 901000\<rparr>]"
  using rate_limit_window [of 900000 Map.empty "''login:203.0.113.7''"
      "[1000, 1000, 1000, 1000, 1000]" 1000 5]
  by (simp add: RATE_LIMITS_AUTH_def upt_rec)

text \<open>
  C3, as the code has it. A stored counter is replaced exactly when \<open>now > resetTime\<close>:
  then the attempt counts as the first of a new window ending at \<open>now + windowMs\<close> and is
  admitted for every \<open>limit \<ge> 1\<close>, however far the old window was exhausted. While
  \<open>now \<le> resetTime\<close> (the instant \<open>now = resetTime\<close> included) the old window goes on:
  the count is incremented and the reset time kept.
\<close>

theorem window_replaced_after_reset:
  assumes "rq key = Some c"
  shows "(resetTime c < now \<and> 1 \<le> lim \<longrightarrow>
            check rq now key lim w =
              (\<lparr>success = True, limit = lim, remaining = lim - 1, reset = now + w\<rparr>,
               (cleanup rq (now - w))(key \<mapsto> \<lparr>count = 1, resetTime = now + w\<rparr>))) \<and>
         (now \<le> resetTime c \<and> 0 \<le> w \<longrightarrow>
            check rq now key lim w =
              (\<lparr>success = count c + 1 \<le> lim, limit = lim,
                remaining = max 0 (lim - (count c + 1)), reset = resetTime c\<rparr>,
               (cleanup rq (now - w))(key \<mapsto> \<lparr>count = count c + 1, resetTime = resetTime c\<rparr>)))"
proof (intro conjI impI)
  assume a: "resetTime c < now \<and> 1 \<le> lim"
  have "cleanup rq (now - w) key = None \<or> cleanup rq (now - w) key = Some c"
    using assms by (simp add: cleanup_def)
  then show "check rq now key lim w =
              (\<lparr>success = True, limit = lim, remaining = lim - 1, reset = now + w\<rparr>,
               (cleanup rq (now - w))(key \<mapsto> \<lparr>count = 1, resetTime = now + w\<rparr>))"
    using a unfolding check_def Let_def by auto
next
  assume a: "now \<le> resetTime c \<and> 0 \<le> w"
  have "cleanup rq (now - w) key = Some c"
    using assms a by (simp add: cleanup_def)
  then show "check rq now key lim w =
              (\<lparr>success = count c + 1 \<le> lim, limit = lim,
                remaining = max 0 (lim - (count c + 1)), reset = resetTime c\<rparr>,
               (cleanup rq (now - w))(key \<mapsto> \<lparr>count = count c + 1, resetTime = resetTime c\<rparr>))"
    using a unfolding check_def Let_def by (cases c) auto
qed

theorem window_replaced_after_reset_witness:
  "fst (check [''login:203.0.113.7'' \<mapsto> \<lparr>count = 5, resetTime = 1000\<rparr>] 1001
          ''login:203.0.113.7'' 5 900000)
     = \<lparr>success = True, limit = 5, remaining = 4, reset = 901001\<rparr> \<and>
   fst (check [''login:203.0.113.7'' \<mapsto> \<lparr>count = 4, resetTime = 1000\<rparr>] 1000
          ''login:203.0.113.7'' 5 900000)
     = \<lparr>success = True, limit = 5, remaining = 0, reset = 1000\<rparr>"
  using window_replaced_after_reset
          [of "[''login:203.0.113.7'' \<mapsto> \<lparr>count = 5, resetTime = 1000\<rparr>]"
              "''login:203.0.113.7''" "\<lparr>count = 5, resetTime = 1000\<rparr>" 1001 5 900000]
        window_replaced_after_reset
          [of "[''login:203.0.113.7'' \<mapsto> \<lparr>count = 4, resetTime = 1000\<rparr>]"
              "''login:203.0.113.7''" "\<lparr>count = 4, resetTime = 1000\<rparr>" 1000 5 900000]
  by simp

text \<open>
  C3 as stated fails at \<open>now = resetTime\<close>: with the window exhausted (5 of 5) and the
  clock exactly at the stored reset time, the attempt is counted in the old window
  and denied.
\<close>

theorem window_replaced_at_reset_counterexample:
  "resetTime \<lparr>count = 5, resetTime = 1000\<rparr> \<le> 1000 \<and>
   fst (check [''login:203.0.113.7'' \<mapsto> \<lparr>count = 5, resetTime = 1000\<rparr>] 1000
          ''login:203.0.113.7'' 5 900000)
     = \<lparr>success = False, limit = 5, remaining = 0, reset = 1000\<rparr> \<and>
   snd (check [''login:203.0.113.7'' \<mapsto> \<lparr>count = 5, resetTime = 1000\<rparr>] 1000
          ''login:203.0.113.7'' 5 900000) ''login:203.0.113.7''
     = Some \<lparr>count = 6, resetTime = 1000\<rparr>"
  by (simp add: check_def cleanup_def Let_def)

section \<open>Properties of the error formatter\<close>

text \<open>
  C1. A failure that none of the four tests recognises (no \<^verbatim>\<open>ValidationError\<close>, no
  \<^verbatim>\<open>ApiError\<close>, not named \<^verbatim>\<open>'ValidationError'\<close>, no code \<^verbatim>\<open>11000\<close>) is formatted as the
  one fixed envelope: code \<^verbatim>\<open>INTERNAL_ERROR\<close>, status 500, the generic message, no
  details. The envelope is the same constant for every such failure, so nothing of
  the failure's message, stack or other properties is in it.
\<close>

theorem unrecognised_failure_is_internal:
  assumes "t_name t \<noteq> Some ''ValidationError''" and "t_code t \<noteq> CodeNum 11000"
  shows "formatErrorResponse (Thrown t) =
           Inr \<lparr>error = ''Internal server error'', code = Some ''INTERNAL_ERROR'',
                details = None, statusCode = 500\<rparr>"
  using assms by (simp add: formatErrorResponse_def)

theorem unrecognised_failure_is_internal_witness:
  "formatErrorResponse
     (Thrown \<lparr>t_name = Some ''MongoNetworkError'',
              t_message = ''connect ECONNREFUSED 10.0.0.5:27017'',
              t_stack = ''at connectToDatabase (src/lib/database.ts:31:11)'',
              t_code = CodeStr ''ECONNREFUSED'', t_errors = None, t_keyPattern = None\<rparr>)
   = Inr \<lparr>error = ''Internal server error'', code = Some ''INTERNAL_ERROR'',
          details = None, statusCode = 500\<rparr>"
  using unrecognised_failure_is_internal
          [of "\<lparr>t_name = Some ''MongoNetworkError'',
                t_message = ''connect ECONNREFUSED 10.0.0.5:27017'',
                t_stack = ''at connectToDatabase (src/lib/database.ts:31:11)'',
                t_code = CodeStr ''ECONNREFUSED'', t_errors = None, t_keyPattern = None\<rparr>"]
  by simp




section \<open>Properties of the token service\<close>

text \<open>
  C4. \<^verbatim>\<open>verifyToken\<close> is total: whatever \<^verbatim>\<open>jwt.verify\<close> does, it returns the decoded payload
  when \<^verbatim>\<open>jwt.verify\<close> returns one, and \<open>None\<close> (\<^verbatim>\<open>null\<close>) when \<^verbatim>\<open>jwt.verify\<close> throws
  anything. With the modelled package, the payload is returned exactly when the
  signature verifies and the token is unexpired; a token with a valid signature past
  its expiry and a token with a corrupted signature both give the same \<open>None\<close>.
\<close>

theorem verifyToken_total:
  "(\<forall>d. jwt_verify jwt now token (JWT_SECRET cfg) = Inr d \<longrightarrow>
         verifyToken jwt cfg now token = Some d) \<and>
   (\<forall>e. jwt_verify jwt now token (JWT_SECRET cfg) = Inl e \<longrightarrow>
         verifyToken jwt cfg now token = None) \<and>
   verifyToken (hs_jwt mac) cfg now tok =
     (case tok of
        Compact claims signature \<Rightarrow>
          if signature = mac (JWT_SECRET cfg) claims \<and> now div 1000 < exp claims
          then Some claims else None
      | Undecodable _ \<Rightarrow> None) \<and>
   (exp c \<le> now div 1000 \<and> s \<noteq> mac (JWT_SECRET cfg) c' \<longrightarrow>
      verifyToken (hs_jwt mac) cfg now (Compact c (mac (JWT_SECRET cfg) c)) = None \<and>
      verifyToken (hs_jwt mac) cfg now (Compact c' s) = None)"
  by (auto simp: verifyToken_def hs_jwt_def hs_verify_def split: jwt_token.splits)

theorem verifyToken_total_witness:
  "verifyToken (hs_jwt (\<lambda>secret c. secret @ userId c))
       \<lparr>JWT_SECRET = ''insecure_default_secret'', JWT_EXPIRES_IN = 604800\<rparr> 700000000
       (Compact \<lparr>userId = ''u1'', email = ''a@b.co'', role = ''candidate'',
                 iat = 0, exp = 604800\<rparr> ''insecure_default_secretu1'') = None \<and>
   verifyToken (hs_jwt (\<lambda>secret c. secret @ userId c))
       \<lparr>JWT_SECRET = ''insecure_default_secret'', JWT_EXPIRES_IN = 604800\<rparr> 700000000
       (Compact \<lparr>userId = ''u1'', email = ''a@b.co'', role = ''candidate'',
                 iat = 699999, exp = 1304799\<rparr> ''forged'') = None \<and>
   verifyToken (hs_jwt (\<lambda>secret c. secret @ userId c))
       \<lparr>JWT_SECRET = ''insecure_default_secret'', JWT_EXPIRES_IN = 604800\<rparr> 700000000
       (Compact \<lparr>userId = ''u1'', email = ''a@b.co'', role = ''candidate'',
                 iat = 699999, exp = 1304799\<rparr> ''insecure_default_secretu1'')
     = Some \<lparr>userId = ''u1'', email = ''a@b.co'', role = ''candidate'',
             iat = 699999, exp = 1304799\<rparr>"
  using verifyToken_total
          [of "hs_jwt (\<lambda>secret c. secret @ userId c)" 700000000
              "Compact \<lparr>userId = ''u1'', email = ''a@b.co'', role = ''candidate'',
                        iat = 699999, exp = 1304799\<rparr> ''insecure_default_secretu1''"
              "\<lparr>JWT_SECRET = ''insecure_default_secret'', JWT_EXPIRES_IN = 604800\<rparr>"
              "\<lambda>secret c. secret @ userId c"
              "Compact \<lparr>userId = ''u1'', email = ''a@b.co'', role = ''candidate'',
                        iat = 699999, exp = 1304799\<rparr> ''insecure_default_secretu1''"
              "\<lparr>userId = ''u1'', email = ''a@b.co'', role = ''candidate'',
                iat = 0, exp = 604800\<rparr>"
              "''forged''"
              "\<lparr>userId = ''u1'', email = ''a@b.co'', role = ''candidate'',
                iat = 699999, exp = 1304799\<rparr>"]
  by (simp add: hs_jwt_def hs_verify_def)

text \<open>
  C9. With the modelled package and one secret, a token issued at \<open>now\<close> for a payload
  and verified at a time \<open>now'\<close> before its expiry is accepted, and the decoded payload
  carries the original \<open>userId\<close>, \<open>email\<close> and \<open>role\<close> (beside \<open>iat\<close> and \<open>exp\<close>).
\<close>

theorem verify_generate_roundtrip:
  assumes "now' div 1000 < now div 1000 + JWT_EXPIRES_IN cfg"
  shows "\<exists>tok. generateToken (hs_jwt mac) cfg now payload = Inr tok \<and>
           verifyToken (hs_jwt mac) cfg now' tok =
             Some \<lparr>userId = userId payload, email = email payload, role = role payload,
                   iat = now div 1000, exp = now div 1000 + JWT_EXPIRES_IN cfg\<rparr>"
  using assms
  by (simp add: generateToken_def verifyToken_def hs_jwt_def hs_sign_def hs_verify_def Let_def)

theorem verify_generate_roundtrip_witness:
  "\<exists>tok. generateToken (hs_jwt (\<lambda>secret c. secret @ userId c))
            \<lparr>JWT_SECRET = ''insecure_default_secret'', JWT_EXPIRES_IN = 604800\<rparr> 1700000000000
            \<lparr>userId = ''507f1f77bcf86cd799439011'', email = ''user@example.com'',
             role = ''candidate''\<rparr> = Inr tok \<and>
         verifyToken (hs_jwt (\<lambda>secret c. secret @ userId c))
            \<lparr>JWT_SECRET = ''insecure_default_secret'', JWT_EXPIRES_IN = 604800\<rparr> 1700000060000 tok
           = Some \<lparr>userId = ''507f1f77bcf86cd799439011'', email = ''user@example.com'',
                   role = ''candidate'', iat = 1700000000, exp = 1700604800\<rparr>"
  using verify_generate_roundtrip
          [of 1700000060000 1700000000000
              "\<lparr>JWT_SECRET = ''insecure_default_secret'', JWT_EXPIRES_IN = 604800\<rparr>"
              "\<lambda>secret c. secret @ userId c"
              "\<lparr>userId = ''507f1f77bcf86cd799439011'', email = ''user@example.com'',
                role = ''candidate''\<rparr>"]
  by simp

section \<open>Properties of validation\<close>

lemma push_message_new:
  "p \<notin> fst ` set errs \<Longrightarrow> push_message p m errs = errs @ [(p, [m])]"
  by (induction errs) auto

lemma push_message_last:
  "p \<notin> fst ` set errs \<Longrightarrow> push_message p m (errs @ [(p, acc)]) = errs @ [(p, acc @ [m])]"
  by (induction errs) auto

lemma foldl_push_last:
  "p \<notin> fst ` set errs \<Longrightarrow>
   foldl (\<lambda>errors e. push_message (join ''.'' (path e)) (i_message e) errors)
         (errs @ [(p, acc)]) (at_key p ms)
   = errs @ [(p, acc @ ms)]"
proof (induction ms arbitrary: acc)
  case Nil
  then show ?case by (simp add: at_key_def)
next
  case (Cons m ms)
  have "foldl (\<lambda>errors e. push_message (join ''.'' (path e)) (i_message e) errors)
          (errs @ [(p, acc)]) (at_key p (m # ms))
        = foldl (\<lambda>errors e. push_message (join ''.'' (path e)) (i_message e) errors)
          (errs @ [(p, acc @ [m])]) (at_key p ms)"
    using Cons.prems by (simp add: at_key_def push_message_last)
  then show ?case
    using Cons.IH [OF Cons.prems, of "acc @ [m]"] by simp
qed

text \<open>The entry a field gets in the error mapping: none when it has no message.\<close>

lemma foldl_push_field:
  assumes "p \<notin> fst ` set errs"
  shows "foldl (\<lambda>errors e. push_message (join ''.'' (path e)) (i_message e) errors)
               errs (at_key p ms)
         = errs @ field_entry p ms"
proof (cases ms)
  case Nil
  then show ?thesis by (simp add: at_key_def field_entry_def)
next
  case (Cons m ms')
  have "foldl (\<lambda>errors e. push_message (join ''.'' (path e)) (i_message e) errors)
               errs (at_key p (m # ms'))
        = foldl (\<lambda>errors e. push_message (join ''.'' (path e)) (i_message e) errors)
               (errs @ [(p, [m])]) (at_key p ms')"
    using assms by (simp add: at_key_def push_message_new)
  then show ?thesis
    using foldl_push_last [OF assms, of "[m]" ms'] Cons by (simp add: field_entry_def)
qed

lemma fst_field_entry: "fst ` set (field_entry p ms) \<subseteq> {p}"
  by (auto simp: field_entry_def)

lemma fieldErrors_five:
  assumes "distinct [k1, k2, k3, k4, k5]"
  shows "fieldErrors (at_key k1 m1 @ at_key k2 m2 @ at_key k3 m3 @ at_key k4 m4 @ at_key k5 m5)
         = field_entry k1 m1 @ field_entry k2 m2 @ field_entry k3 m3 @ field_entry k4 m4
           @ field_entry k5 m5"
proof -
  let ?F = "\<lambda>errors e. push_message (join ''.'' (path e)) (i_message e) errors"
  have 1: "foldl ?F [] (at_key k1 m1) = field_entry k1 m1"
    using foldl_push_field [of k1 "[]" m1] by simp
  have 2: "foldl ?F (field_entry k1 m1) (at_key k2 m2) = field_entry k1 m1 @ field_entry k2 m2"
    using assms fst_field_entry [of k1 m1] by (intro foldl_push_field) auto
  have 3: "foldl ?F (field_entry k1 m1 @ field_entry k2 m2) (at_key k3 m3)
           = (field_entry k1 m1 @ field_entry k2 m2) @ field_entry k3 m3"
    using assms fst_field_entry [of k1 m1] fst_field_entry [of k2 m2]
    by (intro foldl_push_field) auto
  have 4: "foldl ?F ((field_entry k1 m1 @ field_entry k2 m2) @ field_entry k3 m3) (at_key k4 m4)
           = ((field_entry k1 m1 @ field_entry k2 m2) @ field_entry k3 m3) @ field_entry k4 m4"
    using assms fst_field_entry [of k1 m1] fst_field_entry [of k2 m2] fst_field_entry [of k3 m3]
    by (intro foldl_push_field) auto
  have 5: "foldl ?F (((field_entry k1 m1 @ field_entry k2 m2) @ field_entry k3 m3)
                      @ field_entry k4 m4) (at_key k5 m5)
           = (((field_entry k1 m1 @ field_entry k2 m2) @ field_entry k3 m3) @ field_entry k4 m4)
             @ field_entry k5 m5"
    using assms fst_field_entry [of k1 m1] fst_field_entry [of k2 m2] fst_field_entry [of k3 m3]
      fst_field_entry [of k4 m4]
    by (intro foldl_push_field) auto
  show ?thesis
    unfolding fieldErrors_def foldl_append 1 2 3 4 5 by simp
qed

lemma password_messages:
  assumes "length pw < 8" and "\<not> password_pattern pw"
  shows "z_string register_password (Some (JStr pw)) =
           ([''Password must be at least 8 characters long'',
             ''Password must contain at least one uppercase letter, one lowercase letter, and one number''],
            None)"
  using assms by (simp add: z_string_def register_password_def)

text \<open>
  C6. When the password of a registration body is a string that is shorter than 8
  and fails the character-class pattern, validation fails and the error mapping the
  route builds has both messages, in check order, under \<open>password\<close>. Every other
  field is checked as well: the mapping holds, for each of \<open>email\<close>, \<open>firstName\<close>,
  \<open>lastName\<close> and \<open>role\<close>, exactly the messages of that field's own checks.
\<close>

theorem both_password_violations_reported:
  assumes "jget kvs ''password'' = Some (JStr pw)"
    and "length pw < 8" and "\<not> password_pattern pw"
  shows "\<exists>issues. registerSchema_safeParse (JObj kvs) = Inl issues \<and>
           fieldErrors issues =
             field_entry ''email'' (fst (z_string register_email (jget kvs ''email'')))
             @ [(''password'',
                 [''Password must be at least 8 characters long'',
                  ''Password must contain at least one uppercase letter, one lowercase letter, and one number''])]
             @ field_entry ''firstName'' (fst (z_string register_firstName (jget kvs ''firstName'')))
             @ field_entry ''lastName'' (fst (z_string register_lastName (jget kvs ''lastName'')))
             @ field_entry ''role''
                 (fst (z_enum_default [''candidate'', ''recruiter''] ''candidate'' (jget kvs ''role'')))"
proof -
  let ?m1 = "fst (z_string register_email (jget kvs ''email''))"
  let ?m2 = "[''Password must be at least 8 characters long'',
       ''Password must contain at least one uppercase letter, one lowercase letter, and one number'']"
  let ?m3 = "fst (z_string register_firstName (jget kvs ''firstName''))"
  let ?m4 = "fst (z_string register_lastName (jget kvs ''lastName''))"
  let ?m5 = "fst (z_enum_default [''candidate'', ''recruiter''] ''candidate'' (jget kvs ''role''))"
  let ?issues = "at_key ''email'' ?m1 @ at_key ''password'' ?m2 @ at_key ''firstName'' ?m3
                 @ at_key ''lastName'' ?m4 @ at_key ''role'' ?m5"
  have pw: "z_string register_password (jget kvs ''password'') = (?m2, None)"
    using assms by (simp add: password_messages)
  have parse: "registerSchema_safeParse (JObj kvs) = Inl ?issues"
    by (simp add: registerSchema_safeParse_def pw split_beta Let_def split: option.splits)
  have "fieldErrors ?issues =
          field_entry ''email'' ?m1 @ field_entry ''password'' ?m2 @ field_entry ''firstName'' ?m3
          @ field_entry ''lastName'' ?m4 @ field_entry ''role'' ?m5"
    by (intro fieldErrors_five) simp
  then have "fieldErrors ?issues =
          field_entry ''email'' ?m1 @ [(''password'', ?m2)] @ field_entry ''firstName'' ?m3
          @ field_entry ''lastName'' ?m4 @ field_entry ''role'' ?m5"
    by (simp add: field_entry_def)
  with parse show ?thesis by blast
qed

lemma zod_email_nonempty: "zod_email s \<Longrightarrow> s \<noteq> []"
  by (auto simp: zod_email_def)

lemma z_email_accepts:
  "z_string register_email input = (ms, Some v) \<longleftrightarrow>
     ms = [] \<and> input = Some (JStr v) \<and> zod_email v"
  by (auto simp: z_string_def register_email_def
           split: option.splits jsval.splits if_splits dest: zod_email_nonempty)

lemma z_password_accepts:
  "z_string register_password input = (ms, Some v) \<longleftrightarrow>
     ms = [] \<and> input = Some (JStr v) \<and> 8 \<le> length v \<and> password_pattern v"
  by (auto simp: z_string_def register_password_def split: option.splits jsval.splits if_splits)

lemma z_firstName_accepts:
  "z_string register_firstName input = (ms, Some v) \<longleftrightarrow>
     ms = [] \<and> (\<exists>f. input = Some (JStr f) \<and> 1 \<le> length f \<and> length f \<le> 50 \<and> v = js_trim f)"
  by (auto simp: z_string_def register_firstName_def Suc_le_eq split: option.splits jsval.splits if_splits)

lemma z_lastName_accepts:
  "z_string register_lastName input = (ms, Some v) \<longleftrightarrow>
     ms = [] \<and> (\<exists>l. input = Some (JStr l) \<and> 1 \<le> length l \<and> length l \<le> 50 \<and> v = js_trim l)"
  by (auto simp: z_string_def register_lastName_def Suc_le_eq split: option.splits jsval.splits if_splits)

lemma z_role_accepts:
  "z_enum_default [''candidate'', ''recruiter''] ''candidate'' input = (ms, Some v) \<longleftrightarrow>
     ms = [] \<and>
     (input = None \<or> input = Some (JStr ''candidate'') \<or> input = Some (JStr ''recruiter'')) \<and>
     v = (case input of Some (JStr r) \<Rightarrow> r | _ \<Rightarrow> ''candidate'')"
  by (auto simp: z_enum_default_def Let_def split: option.splits jsval.splits if_splits)

lemma safeParse_accepts:
  "registerSchema_safeParse body = Inr d \<longleftrightarrow>
     (\<exists>kvs e p f l.
        body = JObj kvs \<and> conformant kvs e p f l \<and>
        d = \<lparr>r_email = e, r_password = p, r_firstName = js_trim f, r_lastName = js_trim l,
             r_role = (case jget kvs ''role'' of Some (JStr r) \<Rightarrow> r | _ \<Rightarrow> ''candidate'')\<rparr>)"
proof (cases body)
  case (JObj kvs)
  obtain m1 v1 where z1: "z_string register_email (jget kvs ''email'') = (m1, v1)"
    by (cases "z_string register_email (jget kvs ''email'')")
  obtain m2 v2 where z2: "z_string register_password (jget kvs ''password'') = (m2, v2)"
    by (cases "z_string register_password (jget kvs ''password'')")
  obtain m3 v3 where z3: "z_string register_firstName (jget kvs ''firstName'') = (m3, v3)"
    by (cases "z_string register_firstName (jget kvs ''firstName'')")
  obtain m4 v4 where z4: "z_string register_lastName (jget kvs ''lastName'') = (m4, v4)"
    by (cases "z_string register_lastName (jget kvs ''lastName'')")
  obtain m5 v5 where z5: "z_enum_default [''candidate'', ''recruiter''] ''candidate''
                            (jget kvs ''role'') = (m5, v5)"
    by (cases "z_enum_default [''candidate'', ''recruiter''] ''candidate'' (jget kvs ''role'')")
  have parse: "registerSchema_safeParse body = Inr d \<longleftrightarrow>
          (\<exists>e p f l r. v1 = Some e \<and> v2 = Some p \<and> v3 = Some f \<and> v4 = Some l \<and> v5 = Some r \<and>
             d = \<lparr>r_email = e, r_password = p, r_firstName = f, r_lastName = l, r_role = r\<rparr>)"
    using JObj z1 z2 z3 z4 z5
    by (auto simp: registerSchema_safeParse_def split: option.splits)
  show ?thesis
  proof
    assume "registerSchema_safeParse body = Inr d"
    with parse obtain e p f l r
      where vs: "v1 = Some e" "v2 = Some p" "v3 = Some f" "v4 = Some l" "v5 = Some r"
        and d: "d = \<lparr>r_email = e, r_password = p, r_firstName = f, r_lastName = l, r_role = r\<rparr>"
      by blast
    from z1 vs(1) have e: "jget kvs ''email'' = Some (JStr e)" "zod_email e"
      by (simp_all add: z_email_accepts)
    from z2 vs(2) have p: "jget kvs ''password'' = Some (JStr p)" "8 \<le> length p"
        "password_pattern p"
      by (simp_all add: z_password_accepts)
    from z3 vs(3) obtain fs where f: "jget kvs ''firstName'' = Some (JStr fs)"
        "1 \<le> length fs" "length fs \<le> 50" "f = js_trim fs"
      by (auto simp: z_firstName_accepts)
    from z4 vs(4) obtain ls where l: "jget kvs ''lastName'' = Some (JStr ls)"
        "1 \<le> length ls" "length ls \<le> 50" "l = js_trim ls"
      by (auto simp: z_lastName_accepts)
    from z5 vs(5) have r: "jget kvs ''role'' = None \<or> jget kvs ''role'' = Some (JStr ''candidate'')
         \<or> jget kvs ''role'' = Some (JStr ''recruiter'')"
        "r = (case jget kvs ''role'' of Some (JStr r) \<Rightarrow> r | _ \<Rightarrow> ''candidate'')"
      by (simp_all add: z_role_accepts)
    have "conformant kvs e p fs ls"
      using e p f(1-3) l(1-3) r(1) by (simp add: conformant_def)
    then show "\<exists>kvs e p f l.
        body = JObj kvs \<and> conformant kvs e p f l \<and>
        d = \<lparr>r_email = e, r_password = p, r_firstName = js_trim f, r_lastName = js_trim l,
             r_role = (case jget kvs ''role'' of Some (JStr r) \<Rightarrow> r | _ \<Rightarrow> ''candidate'')\<rparr>"
      using JObj d f(4) l(4) r(2) by blast
  next
    assume "\<exists>kvs e p f l.
        body = JObj kvs \<and> conformant kvs e p f l \<and>
        d = \<lparr>r_email = e, r_password = p, r_firstName = js_trim f, r_lastName = js_trim l,
             r_role = (case jget kvs ''role'' of Some (JStr r) \<Rightarrow> r | _ \<Rightarrow> ''candidate'')\<rparr>"
    then obtain e p f l where c: "conformant kvs e p f l"
      and d: "d = \<lparr>r_email = e, r_password = p, r_firstName = js_trim f, r_lastName = js_trim l,
             r_role = (case jget kvs ''role'' of Some (JStr r) \<Rightarrow> r | _ \<Rightarrow> ''candidate'')\<rparr>"
      using JObj by auto
    from c z1 have "v1 = Some e"
      by (cases v1) (auto simp: conformant_def z_email_accepts z_string_def register_email_def
                          split: if_splits dest: zod_email_nonempty)
    moreover from c z2 have "v2 = Some p"
      by (cases v2) (auto simp: conformant_def z_string_def register_password_def split: if_splits)
    moreover from c z3 have "v3 = Some (js_trim f)"
      by (cases v3) (auto simp: conformant_def z_string_def register_firstName_def split: if_splits)
    moreover from c z4 have "v4 = Some (js_trim l)"
      by (cases v4) (auto simp: conformant_def z_string_def register_lastName_def split: if_splits)
    moreover from c z5
    have "v5 = Some (case jget kvs ''role'' of Some (JStr r) \<Rightarrow> r | _ \<Rightarrow> ''candidate'')"
      by (auto simp: conformant_def z_enum_default_def Let_def)
    ultimately show "registerSchema_safeParse body = Inr d"
      using parse d by simp
  qed
qed (auto simp: registerSchema_safeParse_def)

text \<open>
  C7, as the code has it. A registration body is accepted exactly when it is fully
  conformant: an object that breaks no rule of the schema. For every such body
  validation succeeds, so no error mapping is built, and the value returned has
  \<open>firstName\<close> and \<open>lastName\<close> trimmed, \<open>role\<close> defaulted to \<open>candidate\<close> when absent, and
  \<open>email\<close> and \<open>password\<close> exactly as sent: the validator neither trims nor lower-cases
  the email. The registration route, once the attempt is admitted, runs its storage
  steps on that returned value.
\<close>

theorem conformant_input_normalised:
  "(conformant kvs e p f l \<longrightarrow>
      registerSchema_safeParse (JObj kvs) =
        Inr \<lparr>r_email = e, r_password = p, r_firstName = js_trim f, r_lastName = js_trim l,
             r_role = (case jget kvs ''role'' of Some (JStr r) \<Rightarrow> r | _ \<Rightarrow> ''candidate'')\<rparr>) \<and>
   (registerSchema_safeParse body = Inr d \<longrightarrow>
      (\<exists>kvs e p f l.
         body = JObj kvs \<and> conformant kvs e p f l \<and>
         d = \<lparr>r_email = e, r_password = p, r_firstName = js_trim f, r_lastName = js_trim l,
              r_role = (case jget kvs ''role'' of Some (JStr r) \<Rightarrow> r | _ \<Rightarrow> ''candidate'')\<rparr>)) \<and>
   (registerSchema_safeParse body = Inr d \<and> req_json request = Inr body \<and>
    success (register_verdict rq now request) \<longrightarrow>
      fst (POST_register jwt cfg db now rq request) =
        catch_block ([RATE_CHECK, PARSE_VALIDATE, EXECUTE], register_execute jwt cfg db now d))"
proof (intro conjI impI)
  assume "conformant kvs e p f l"
  then show "registerSchema_safeParse (JObj kvs) =
        Inr \<lparr>r_email = e, r_password = p, r_firstName = js_trim f, r_lastName = js_trim l,
             r_role = (case jget kvs ''role'' of Some (JStr r) \<Rightarrow> r | _ \<Rightarrow> ''candidate'')\<rparr>"
    unfolding safeParse_accepts by blast
next
  assume "registerSchema_safeParse body = Inr d"
  then show "\<exists>kvs e p f l.
         body = JObj kvs \<and> conformant kvs e p f l \<and>
         d = \<lparr>r_email = e, r_password = p, r_firstName = js_trim f, r_lastName = js_trim l,
              r_role = (case jget kvs ''role'' of Some (JStr r) \<Rightarrow> r | _ \<Rightarrow> ''candidate'')\<rparr>"
    by (simp only: safeParse_accepts)
next
  assume "registerSchema_safeParse body = Inr d \<and> req_json request = Inr body \<and>
    success (register_verdict rq now request)"
  then show "fst (POST_register jwt cfg db now rq request) =
        catch_block ([RATE_CHECK, PARSE_VALIDATE, EXECUTE], register_execute jwt cfg db now d)"
    by (simp add: POST_register_def split_beta Let_def)
qed

lemmas validation_defs =
  registerSchema_safeParse_def loginSchema_safeParse_def z_string_def z_enum_default_def
  register_email_def register_password_def register_firstName_def register_lastName_def
  jget_def zod_email_def local_char_def local_last_char_def domain_label_def top_label_def
  is_alnum_def is_lower_def is_upper_def is_digit_def password_pattern_def first_line_def
  js_trim_def is_space_def at_key_def invalid_type_def join_values_def

theorem conformant_input_normalised_witness:
  "conformant [(''email'', JStr ''USER@Example.com''), (''password'', JStr ''Passw0rd1''),
               (''firstName'', JStr '' Ann ''), (''lastName'', JStr ''Lee'')]
     ''USER@Example.com'' ''Passw0rd1'' '' Ann '' ''Lee'' \<and>
   registerSchema_safeParse
     (JObj [(''email'', JStr ''USER@Example.com''), (''password'', JStr ''Passw0rd1''),
            (''firstName'', JStr '' Ann ''), (''lastName'', JStr ''Lee'')])
     = Inr \<lparr>r_email = ''USER@Example.com'', r_password = ''Passw0rd1'', r_firstName = ''Ann'',
            r_lastName = ''Lee'', r_role = ''candidate''\<rparr>"
proof -
  have c: "conformant [(''email'', JStr ''USER@Example.com''), (''password'', JStr ''Passw0rd1''),
               (''firstName'', JStr '' Ann ''), (''lastName'', JStr ''Lee'')]
     ''USER@Example.com'' ''Passw0rd1'' '' Ann '' ''Lee''"
    by (simp add: conformant_def jget_def zod_email_def local_char_def local_last_char_def
          domain_label_def top_label_def is_alnum_def is_lower_def is_upper_def is_digit_def
          password_pattern_def first_line_def)
  from conformant_input_normalised [THEN conjunct1, rule_format, OF c]
  show ?thesis using c by (simp add: jget_def js_trim_def is_space_def)
qed

text \<open>
  C7 as stated fails on the email: \<^verbatim>\<open>"  USER@Example.com "\<close> does not validate (the
  pattern of \<^verbatim>\<open>.email()\<close> admits no white space and the schema does not trim), and
  \<^verbatim>\<open>"USER@Example.com"\<close> validates to itself, not to its lower-case form.
\<close>

theorem email_not_normalised_counterexample:
  "registerSchema_safeParse
     (JObj [(''email'', JStr ''  USER@Example.com ''), (''password'', JStr ''Passw0rd1''),
            (''firstName'', JStr ''Ann''), (''lastName'', JStr ''Lee'')])
     = Inl [\<lparr>path = [''email''], i_message = ''Invalid email format''\<rparr>] \<and>
   registerSchema_safeParse
     (JObj [(''email'', JStr ''USER@Example.com''), (''password'', JStr ''Passw0rd1''),
            (''firstName'', JStr ''Ann''), (''lastName'', JStr ''Lee'')])
     = Inr \<lparr>r_email = ''USER@Example.com'', r_password = ''Passw0rd1'', r_firstName = ''Ann'',
            r_lastName = ''Lee'', r_role = ''candidate''\<rparr> \<and>
   ''USER@Example.com'' \<noteq> ''user@example.com''"
  by (simp add: validation_defs)

theorem both_password_violations_reported_witness:
  "\<exists>issues.
     registerSchema_safeParse
       (JObj [(''email'', JStr ''not-an-email''), (''password'', JStr ''abc''),
              (''firstName'', JStr ''''), (''lastName'', JStr ''D'')]) = Inl issues \<and>
     fieldErrors issues =
       [(''email'', [''Invalid email format'']),
        (''password'',
         [''Password must be at least 8 characters long'',
          ''Password must contain at least one uppercase letter, one lowercase letter, and one number'']),
        (''firstName'', [''First name is required''])]"
  using both_password_violations_reported
          [of "[(''email'', JStr ''not-an-email''), (''password'', JStr ''abc''),
                (''firstName'', JStr ''''), (''lastName'', JStr ''D'')]" "''abc''"]
  by (simp add: validation_defs field_entry_def)

section \<open>Properties of the route handlers\<close>

lemma catch_block_trace: "fst (catch_block (tr, r)) = tr @ [FORMAT]"
  by (cases r) (simp_all add: catch_block_def)





lemmas example_defs =
  example_cfg_def example_jwt_def example_user_def example_db_def example_update_safeParse_def
  authenticateRequest_def extractTokenFromRequest_def verifyToken_def generateToken_def
  catch_block_def formatErrorResponse_def envelope_json_def client_ip_def rate_limited_def
  AuthenticationError_def NotFoundError_def ConflictError_def JsonWebTokenError_def
  check_def cleanup_def RATE_LIMITS_AUTH_def



section \<open>Properties of the user model\<close>

lemma transform_no_password: "''password'' \<notin> fst ` set (transform ret)"
  by (auto simp: transform_def)

lemma register_execute_success:
  assumes "register_execute jwt cfg db now d = Inr resp"
  shows "\<exists>user token. status resp = 201 \<and>
           json resp = JObj [(''message'', JStr ''Registration successful''),
                             (''user'', toJSON user), (''token'', JStr token)]"
  using assms by (auto simp: register_execute_def split: option.splits sum.splits)

lemma login_execute_success:
  assumes "login_execute jwt cfg db now d = Inr resp"
  shows "\<exists>user token. status resp = 200 \<and>
           json resp = JObj [(''message'', JStr ''Login successful''),
                             (''user'', toJSON user), (''token'', JStr token)]"
  using assms by (auto simp: login_execute_def split: option.splits sum.splits if_splits)

lemma catch_block_cases:
  assumes "snd (catch_block p) = Inr resp"
  shows "snd p = Inr resp \<or>
         (\<exists>err e. snd p = Inl err \<and> formatErrorResponse err = Inr e \<and>
            resp = \<lparr>status = statusCode e, json = envelope_json e, headers = [], cookies = []\<rparr>)"
  using assms by (cases p; cases "snd p") (auto simp: catch_block_def split: sum.splits)

text \<open>
  C10. The \<^verbatim>\<open>toJSON\<close> of a user document is an object without the key \<open>password\<close>,
  whatever the document holds. Every response of the registration handler and of the
  login handler is of one of three shapes: the success envelope with the keys
  \<open>message\<close>, \<open>user\<close> and \<open>token\<close>, whose \<open>user\<close> is the \<^verbatim>\<open>toJSON\<close> of a document; the
  rate-limit answer; or an error envelope made by \<^verbatim>\<open>formatErrorResponse\<close>. So no success
  envelope carries the stored password hash with its user.
\<close>

theorem toJSON_drops_password:
  "(\<exists>fields. toJSON u = JObj fields \<and> ''password'' \<notin> fst ` set fields \<and>
             jget fields ''password'' = None) \<and>
   (snd (fst (POST_register jwt cfg db now rq request)) = Inr resp \<longrightarrow>
      (\<exists>user token. status resp = 201 \<and>
         json resp = JObj [(''message'', JStr ''Registration successful''),
                           (''user'', toJSON user), (''token'', JStr token)]) \<or>
      (\<exists>r. resp = rate_limited ''Too many registration attempts'' r) \<or>
      (\<exists>err e. formatErrorResponse err = Inr e \<and>
         resp = \<lparr>status = statusCode e, json = envelope_json e, headers = [], cookies = []\<rparr>)) \<and>
   (snd (fst (POST_login jwt cfg db now rq request)) = Inr resp' \<longrightarrow>
      (\<exists>user token. status resp' = 200 \<and>
         json resp' = JObj [(''message'', JStr ''Login successful''),
                            (''user'', toJSON user), (''token'', JStr token)]) \<or>
      (\<exists>r. resp' = rate_limited ''Too many login attempts'' r) \<or>
      (\<exists>err e. formatErrorResponse err = Inr e \<and>
         resp' = \<lparr>status = statusCode e, json = envelope_json e, headers = [], cookies = []\<rparr>))"
proof (intro conjI impI)
  have "map_of (rev (transform (toObject u))) ''password'' = None"
    using transform_no_password [of "toObject u"] by (simp add: map_of_eq_None_iff)
  then show "\<exists>fields. toJSON u = JObj fields \<and> ''password'' \<notin> fst ` set fields \<and>
             jget fields ''password'' = None"
    using transform_no_password [of "toObject u"] by (simp add: toJSON_def jget_def)
next
  assume a: "snd (fst (POST_register jwt cfg db now rq request)) = Inr resp"
  then have "snd (catch_block
      (if \<not> success (fst (check rq now (''register:'' @ client_ip request)
                            (p_limit RATE_LIMITS_AUTH) (p_windowMs RATE_LIMITS_AUTH)))
       then ([RATE_CHECK],
             Inr (rate_limited ''Too many registration attempts''
                    (fst (check rq now (''register:'' @ client_ip request)
                            (p_limit RATE_LIMITS_AUTH) (p_windowMs RATE_LIMITS_AUTH)))))
       else (case req_json request of
               Inl err \<Rightarrow> ([RATE_CHECK, PARSE_VALIDATE], Inl err)
             | Inr body \<Rightarrow>
                 (case registerSchema_safeParse body of
                    Inl issues \<Rightarrow>
                      ([RATE_CHECK, PARSE_VALIDATE], Inl (ValidationError (fieldErrors issues)))
                  | Inr d \<Rightarrow>
                      ([RATE_CHECK, PARSE_VALIDATE, EXECUTE],
                       register_execute jwt cfg db now d))))) = Inr resp"
    by (simp only: POST_register_def split_beta Let_def fst_conv)
  from catch_block_cases [OF this]
  show "(\<exists>user token. status resp = 201 \<and>
         json resp = JObj [(''message'', JStr ''Registration successful''),
                           (''user'', toJSON user), (''token'', JStr token)]) \<or>
      (\<exists>r. resp = rate_limited ''Too many registration attempts'' r) \<or>
      (\<exists>err e. formatErrorResponse err = Inr e \<and>
         resp = \<lparr>status = statusCode e, json = envelope_json e, headers = [], cookies = []\<rparr>)"
    by (auto split: if_splits sum.splits dest!: register_execute_success)
next
  assume a: "snd (fst (POST_login jwt cfg db now rq request)) = Inr resp'"
  then have "snd (catch_block
      (if \<not> success (fst (check rq now (''login:'' @ client_ip request)
                            (p_limit RATE_LIMITS_AUTH) (p_windowMs RATE_LIMITS_AUTH)))
       then ([RATE_CHECK],
             Inr (rate_limited ''Too many login attempts''
                    (fst (check rq now (''login:'' @ client_ip request)
                            (p_limit RATE_LIMITS_AUTH) (p_windowMs RATE_LIMITS_AUTH)))))
       else (case req_json request of
               Inl err \<Rightarrow> ([RATE_CHECK, PARSE_VALIDATE], Inl err)
             | Inr body \<Rightarrow>
                 (case loginSchema_safeParse body of
                    Inl issues \<Rightarrow>
                      ([RATE_CHECK, PARSE_VALIDATE], Inl (ValidationError (fieldErrors issues)))
                  | Inr d \<Rightarrow>
                      ([RATE_CHECK, PARSE_VALIDATE, EXECUTE],
                       login_execute jwt cfg db now d))))) = Inr resp'"
    by (simp only: POST_login_def split_beta Let_def fst_conv)
  from catch_block_cases [OF this]
  show "(\<exists>user token. status resp' = 200 \<and>
         json resp' = JObj [(''message'', JStr ''Login successful''),
                            (''user'', toJSON user), (''token'', JStr token)]) \<or>
      (\<exists>r. resp' = rate_limited ''Too many login attempts'' r) \<or>
      (\<exists>err e. formatErrorResponse err = Inr e \<and>
         resp' = \<lparr>status = statusCode e, json = envelope_json e, headers = [], cookies = []\<rparr>)"
    by (auto split: if_splits sum.splits dest!: login_execute_success)
qed

theorem toJSON_drops_password_witness:
  "snd (fst (POST_login example_jwt example_cfg example_db 1000 Map.empty
        \<lparr>req_ip = Some ''203.0.113.7'', req_authorization = None, req_cookie_token = None,
         req_json = Inr (JObj [(''email'', JStr ''ann@example.com''),
                               (''password'', JStr ''Passw0rd1'')])\<rparr>))
     = Inr \<lparr>status = 200,
            json = JObj [(''message'', JStr ''Login successful''),
                         (''user'', JObj [(''_id'', JStr ''u1''), (''email'', JStr ''ann@example.com''),
                                          (''firstName'', JStr ''Ann''), (''lastName'', JStr ''Lee''),
                                          (''role'', JStr ''candidate''),
                                          (''profilePicture'', JStr []), (''skills'', JArr []),
                                          (''createdAt'', JDate 0), (''updatedAt'', JDate 0),
                                          (''__v'', JNum 0)]),
                         (''token'', JStr ''tok.u1'')],
            headers = [], cookies = [(''token'', ''tok.u1'')]\<rparr> \<and>
   (\<exists>fields. toJSON example_user = JObj fields \<and> ''password'' \<notin> fst ` set fields \<and>
             jget fields ''password'' = None)"
proof -
  have run: "snd (fst (POST_login example_jwt example_cfg example_db 1000 Map.empty
        \<lparr>req_ip = Some ''203.0.113.7'', req_authorization = None, req_cookie_token = None,
         req_json = Inr (JObj [(''email'', JStr ''ann@example.com''),
                               (''password'', JStr ''Passw0rd1'')])\<rparr>))
     = Inr \<lparr>status = 200,
            json = JObj [(''message'', JStr ''Login successful''),
                         (''user'', JObj [(''_id'', JStr ''u1''), (''email'', JStr ''ann@example.com''),
                                          (''firstName'', JStr ''Ann''), (''lastName'', JStr ''Lee''),
                                          (''role'', JStr ''candidate''),
                                          (''profilePicture'', JStr []), (''skills'', JArr []),
                                          (''createdAt'', JDate 0), (''updatedAt'', JDate 0),
                                          (''__v'', JNum 0)]),
                         (''token'', JStr ''tok.u1'')],
            headers = [], cookies = [(''token'', ''tok.u1'')]\<rparr>"
    by (simp add: POST_login_def login_execute_def example_defs validation_defs Let_def
          toJSON_def transform_def toObject_def opt_key_def)
  from toJSON_drops_password [of example_user, THEN conjunct1]
  show ?thesis using run by blast
qed

end
